theory Spec2Isabelle
  imports Complex_Main
begin

section \<open>Geometry values\<close>

text \<open>
  JavaScript numbers are modelled as \<^typ>\<open>real\<close>: finite values with exact
  arithmetic. Rounding of IEEE doubles and NaN are outside the model.

  \<^verbatim>\<open>Vector2\<close> and \<^verbatim>\<open>Rect\<close> are imported by both source files
  (\<^verbatim>\<open>./Vector2\<close>, \<^verbatim>\<open>./Rect\<close>); the sources read the fields
  \<^verbatim>\<open>x\<close>, \<^verbatim>\<open>y\<close>, \<^verbatim>\<open>position\<close> and \<^verbatim>\<open>size\<close>.
\<close>

record vector2 =
  x_coord :: real
  y_coord :: real

record rect =
  position :: vector2
  size_rect :: vector2

text \<open>
  An entry of the drawn-element list, as pushed by the render effect:
  \<^verbatim>\<open>drawnElementsRef.current.push({rect, object: ev})\<close>.
  The object is a reference to an event; its type is left open.
\<close>

record 'o drawn_element =
  rect :: rect
  object :: 'o

text \<open>
  Modelled from the spec: \<^verbatim>\<open>Rect.containsPoint\<close> and \<^verbatim>\<open>Rect.intersectsRect\<close>
  live in \<^verbatim>\<open>./Rect\<close>, which is not among the sources. The spec gives them
  half-open semantics: a point on the far edge is not contained, and two rectangles
  sharing only an edge do not intersect. The hit-testing functions below take the
  two tests as parameters; these definitions serve as concrete instances.
\<close>

definition containsPoint :: "rect \<Rightarrow> vector2 \<Rightarrow> bool" where
  "containsPoint r p \<longleftrightarrow>
     x_coord (position r) \<le> x_coord p \<and> x_coord p < x_coord (position r) + x_coord (size_rect r) \<and>
     y_coord (position r) \<le> y_coord p \<and> y_coord p < y_coord (position r) + y_coord (size_rect r)"

definition intersectsRect :: "rect \<Rightarrow> rect \<Rightarrow> bool" where
  "intersectsRect a b \<longleftrightarrow>
     x_coord (position a) < x_coord (position b) + x_coord (size_rect b) \<and>
     x_coord (position b) < x_coord (position a) + x_coord (size_rect a) \<and>
     y_coord (position a) < y_coord (position b) + y_coord (size_rect b) \<and>
     y_coord (position b) < y_coord (position a) + y_coord (size_rect a)"

section \<open>Hit-testing\<close>

text \<open>
  \<^verbatim>\<open>
  function getIntersectingEvent(point, drawnElements) {
    let intersecting = null;
    // iterate in reverse to visit frontmost rects first
    for (var i = drawnElements.length - 1; i >= 0; i--) {
      const drawnEl = drawnElements[i];
      const intersection = drawnEl.rect.containsPoint(point);
      if (intersection) {
        intersecting = drawnEl.object;
        break;
      }
    }
    return intersecting;
  }
  \<close>
  The loop counter of the model is \<open>i + 1\<close>: at \<open>Suc i\<close> the body runs for index
  \<open>i\<close>, at \<open>0\<close> the loop condition \<open>i >= 0\<close> fails. \<open>None\<close> is \<^verbatim>\<open>null\<close>.
  The first parameter stands for \<^verbatim>\<open>Rect.containsPoint\<close>.
\<close>

fun getIntersectingEvent_loop ::
  "(rect \<Rightarrow> vector2 \<Rightarrow> bool) \<Rightarrow> vector2 \<Rightarrow> 'o drawn_element list \<Rightarrow> nat \<Rightarrow> 'o option" where
  "getIntersectingEvent_loop cp point drawnElements 0 = None"
| "getIntersectingEvent_loop cp point drawnElements (Suc i) =
     (if cp (rect (drawnElements ! i)) point
      then Some (object (drawnElements ! i))
      else getIntersectingEvent_loop cp point drawnElements i)"

definition getIntersectingEvent ::
  "(rect \<Rightarrow> vector2 \<Rightarrow> bool) \<Rightarrow> vector2 \<Rightarrow> 'o drawn_element list \<Rightarrow> 'o option" where
  "getIntersectingEvent cp point drawnElements =
     getIntersectingEvent_loop cp point drawnElements (length drawnElements)"

text \<open>
  \<^verbatim>\<open>
  function findIntersectingEvents(rect, drawnElements) {
    let intersecting = [];
    for (var i = drawnElements.length - 1; i >= 0; i--) {
      const drawnEl = drawnElements[i];
      const intersection = drawnEl.rect.intersectsRect(rect);
      if (intersection) {
        intersecting.push(drawnEl.object);
      }
    }
    return intersecting;
  }
  \<close>
  The accumulator is the array \<^verbatim>\<open>intersecting\<close>; \<^verbatim>\<open>push\<close> appends at the end.
  The first parameter stands for \<^verbatim>\<open>Rect.intersectsRect\<close>, called on the drawn
  rectangle with the query rectangle as its argument.
\<close>

fun findIntersectingEvents_loop ::
  "(rect \<Rightarrow> rect \<Rightarrow> bool) \<Rightarrow> rect \<Rightarrow> 'o drawn_element list \<Rightarrow> nat \<Rightarrow> 'o list \<Rightarrow> 'o list" where
  "findIntersectingEvents_loop ir r drawnElements 0 intersecting = intersecting"
| "findIntersectingEvents_loop ir r drawnElements (Suc i) intersecting =
     findIntersectingEvents_loop ir r drawnElements i
       (if ir (rect (drawnElements ! i)) r
        then intersecting @ [object (drawnElements ! i)]
        else intersecting)"

definition findIntersectingEvents ::
  "(rect \<Rightarrow> rect \<Rightarrow> bool) \<Rightarrow> rect \<Rightarrow> 'o drawn_element list \<Rightarrow> 'o list" where
  "findIntersectingEvents ir r drawnElements =
     findIntersectingEvents_loop ir r drawnElements (length drawnElements) []"

section \<open>The box-select behavior\<close>

text \<open>
  Modelled from the spec: \<^verbatim>\<open>getSelectionBox\<close> lives in \<^verbatim>\<open>./selection\<close>,
  which is not among the sources. The spec describes the axis-aligned rectangle
  between the anchor and the current point, whatever the drag direction. The
  behavior below takes the function as a parameter; this definition serves as a
  concrete instance.
\<close>

definition getSelectionBox :: "vector2 \<Rightarrow> vector2 \<Rightarrow> rect" where
  "getSelectionBox a b =
     \<lparr>position = \<lparr>x_coord = min (x_coord a) (x_coord b), y_coord = min (y_coord a) (y_coord b)\<rparr>,
      size_rect = \<lparr>x_coord = \<bar>x_coord a - x_coord b\<bar>, y_coord = \<bar>y_coord a - y_coord b\<bar>\<rparr>\<rparr>"

text \<open>
  The state of a \<^verbatim>\<open>SelectBoxBehavior\<close> object together with what it has done to
  its two collaborators:
  \<^item> \<open>enabled\<close> has no initialiser in the class, so it is \<^verbatim>\<open>undefined\<close>
    (\<open>None\<close>) until \<^verbatim>\<open>setEnabled\<close> first assigns it;
  \<^item> \<open>selectionBox_rendered\<close> is the last argument of \<^verbatim>\<open>selectionBox.render\<close>:
    \<open>None\<close> for \<^verbatim>\<open>null\<close>, \<open>Some r\<close> for the translucent box drawn at \<open>r\<close>;
  \<^item> \<open>onSelectRect_calls\<close> lists the arguments of the calls of
    \<^verbatim>\<open>onSelectRect\<close> so far, oldest first.
  The field \<^verbatim>\<open>rect\<close> of the class is never read and is left out.
\<close>

record select_box_behavior =
  selectionStart :: vector2
  selectionEnd :: vector2
  selecting :: bool
  enabled :: "bool option"
  selectionBox_rendered :: "rect option"
  onSelectRect_calls :: "rect list"

text \<open>
  The constructor. Both vectors start as \<^verbatim>\<open>new Vector2()\<close>, whose value is the
  parameter \<open>v0\<close>.
\<close>

definition new_SelectBoxBehavior :: "vector2 \<Rightarrow> select_box_behavior" where
  "new_SelectBoxBehavior v0 =
     \<lparr>selectionStart = v0, selectionEnd = v0, selecting = False, enabled = None,
      selectionBox_rendered = None, onSelectRect_calls = []\<rparr>"

text \<open>
  \<^verbatim>\<open>
  setEnabled(enabled) {
    if (this.enabled === enabled) return;
    if (!enabled) {
      this.selectionBox.render(null);
    }
    this.enabled = enabled;
  }
  \<close>
\<close>

definition setEnabled :: "bool \<Rightarrow> select_box_behavior \<Rightarrow> select_box_behavior" where
  "setEnabled en s =
     (if enabled s = Some en then s
      else (if \<not> en then s\<lparr>selectionBox_rendered := None\<rparr> else s)\<lparr>enabled := Some en\<rparr>)"

text \<open>
  The handlers. The position argument is \<^verbatim>\<open>getMouseEventPos(e, this.canvas)\<close>;
  \<^verbatim>\<open>!this.enabled\<close> holds for \<^verbatim>\<open>undefined\<close> and for \<^verbatim>\<open>false\<close>.
  \<^verbatim>\<open>
  onMouseDown = (e) => {
    if (!this.enabled) return;
    this.selecting = true;
    this.selectionStart.copyFrom(getMouseEventPos(e, this.canvas));
    this.selectionEnd.copyFrom(this.selectionStart);
  };
  onMouseUp = (e) => {
    if (!this.enabled) return;
    this.selecting = false;
    this.selectionBox.render(null);
    const selectionBoxRect = getSelectionBox(this.selectionStart, this.selectionEnd);
    this.onSelectRect(selectionBoxRect);
  };
  onMouseOut = (e) => {
    if (!this.enabled) return;
    this.selecting = false;
    this.selectionBox.render(null);
  };
  onMouseMove = (e) => {
    if (!this.selecting) return;
    this.selectionEnd.copyFrom(getMouseEventPos(e, this.canvas));
    const selectionBoxRect = getSelectionBox(this.selectionStart, this.selectionEnd);
    this.selectionBox.render(<div style={{... selectionBoxRect ...}} />);
  };
  \<close>
\<close>

definition onMouseDown :: "vector2 \<Rightarrow> select_box_behavior \<Rightarrow> select_box_behavior" where
  "onMouseDown pos s =
     (if enabled s \<noteq> Some True then s
      else s\<lparr>selecting := True, selectionStart := pos, selectionEnd := pos\<rparr>)"

definition onMouseUp ::
  "(vector2 \<Rightarrow> vector2 \<Rightarrow> rect) \<Rightarrow> vector2 \<Rightarrow> select_box_behavior \<Rightarrow> select_box_behavior" where
  "onMouseUp gsb pos s =
     (if enabled s \<noteq> Some True then s
      else s\<lparr>selecting := False, selectionBox_rendered := None,
             onSelectRect_calls := onSelectRect_calls s @ [gsb (selectionStart s) (selectionEnd s)]\<rparr>)"

definition onMouseOut :: "vector2 \<Rightarrow> select_box_behavior \<Rightarrow> select_box_behavior" where
  "onMouseOut pos s =
     (if enabled s \<noteq> Some True then s
      else s\<lparr>selecting := False, selectionBox_rendered := None\<rparr>)"

definition onMouseMove ::
  "(vector2 \<Rightarrow> vector2 \<Rightarrow> rect) \<Rightarrow> vector2 \<Rightarrow> select_box_behavior \<Rightarrow> select_box_behavior" where
  "onMouseMove gsb pos s =
     (if \<not> selecting s then s
      else s\<lparr>selectionEnd := pos, selectionBox_rendered := Some (gsb (selectionStart s) pos)\<rparr>)"

text \<open>
  What reaches a bound behavior: the four mouse events of \<^verbatim>\<open>bind\<close>, and the
  \<^verbatim>\<open>setEnabled\<close> call of the \<^verbatim>\<open>SelectMode\<close> effect.
\<close>

datatype input =
    MouseDown vector2
  | MouseUp vector2
  | MouseMove vector2
  | MouseOut vector2
  | SetEnabled bool

fun dispatch ::
  "(vector2 \<Rightarrow> vector2 \<Rightarrow> rect) \<Rightarrow> input \<Rightarrow> select_box_behavior \<Rightarrow> select_box_behavior" where
  "dispatch gsb (MouseDown pos) s = onMouseDown pos s"
| "dispatch gsb (MouseUp pos) s = onMouseUp gsb pos s"
| "dispatch gsb (MouseMove pos) s = onMouseMove gsb pos s"
| "dispatch gsb (MouseOut pos) s = onMouseOut pos s"
| "dispatch gsb (SetEnabled en) s = setEnabled en s"

definition run ::
  "(vector2 \<Rightarrow> vector2 \<Rightarrow> rect) \<Rightarrow> input list \<Rightarrow> select_box_behavior \<Rightarrow> select_box_behavior" where
  "run gsb ins s = foldl (\<lambda>s i. dispatch gsb i s) s ins"

section \<open>Events and their extents\<close>

text \<open>
  An event of \<^verbatim>\<open>initialEvents\<close>:
  \<^verbatim>\<open>{degree, start, duration}\<close> with \<^verbatim>\<open>id: index\<close> added by the \<^verbatim>\<open>map\<close>.
\<close>

record event =
  id_ev :: nat
  degree :: real
  start :: real
  duration :: real

definition initialEvents :: "event list" where
  "initialEvents =
     [\<lparr>id_ev = 0, degree = 0, start = 0, duration = 1\<rparr>,
      \<lparr>id_ev = 1, degree = 3, start = 4, duration = 1\<rparr>,
      \<lparr>id_ev = 2, degree = 5, start = 5, duration = 2\<rparr>,
      \<lparr>id_ev = 3, degree = 6, start = 6, duration = 3\<rparr>]"

text \<open>
  \<^verbatim>\<open>const scaleDegrees = range(7);\<close> The helper \<^verbatim>\<open>range\<close> comes from
  \<^verbatim>\<open>./utils\<close>; it is taken to give the seven numbers from \<open>0\<close> to \<open>6\<close>, the
  indices of the seven colours.
\<close>

definition scaleDegrees :: "real list" where
  "scaleDegrees = map real [0..<7]"

text \<open>
  \<^verbatim>\<open>getExtents\<close> folds \<^verbatim>\<open>Math.min\<close> from \<^verbatim>\<open>Infinity\<close> and \<^verbatim>\<open>Math.max\<close>
  from \<^verbatim>\<open>-Infinity\<close>, so its three time fields range over the numbers
  extended by the two infinities, and by NaN for \<^verbatim>\<open>Infinity - Infinity\<close>.
\<close>

datatype number = NaN | NegInfinity | Finite real | Infinity

fun Math_min :: "number \<Rightarrow> number \<Rightarrow> number" where
  "Math_min NaN b = NaN"
| "Math_min a NaN = NaN"
| "Math_min NegInfinity b = NegInfinity"
| "Math_min a NegInfinity = NegInfinity"
| "Math_min Infinity b = b"
| "Math_min a Infinity = a"
| "Math_min (Finite a) (Finite b) = Finite (min a b)"

fun Math_max :: "number \<Rightarrow> number \<Rightarrow> number" where
  "Math_max NaN b = NaN"
| "Math_max a NaN = NaN"
| "Math_max Infinity b = Infinity"
| "Math_max a Infinity = Infinity"
| "Math_max NegInfinity b = b"
| "Math_max a NegInfinity = a"
| "Math_max (Finite a) (Finite b) = Finite (max a b)"

fun number_minus :: "number \<Rightarrow> number \<Rightarrow> number" where
  "number_minus (Finite a) (Finite b) = Finite (a - b)"
| "number_minus NaN b = NaN"
| "number_minus a NaN = NaN"
| "number_minus Infinity Infinity = NaN"
| "number_minus NegInfinity NegInfinity = NaN"
| "number_minus Infinity b = Infinity"
| "number_minus NegInfinity b = NegInfinity"
| "number_minus a Infinity = NegInfinity"
| "number_minus a NegInfinity = Infinity"

record extents =
  start_ext :: number
  end_ext :: number
  size_ext :: number
  minDegree :: real
  maxDegree :: real

text \<open>
  \<^verbatim>\<open>
  function getExtents(events) {
    if (events.length === 0) {
      return {start: 0, end: 0, size: 0, minDegree: 0, maxDegree: scaleDegrees.length - 1};
    }
    const minDegree = events.reduce((acc, ev) => Math.min(acc, ev.degree), 0);
    const maxDegree = events.reduce((acc, ev) => Math.max(acc, ev.degree), scaleDegrees.length - 1);
    const start = events.reduce((acc, ev) => Math.min(acc, ev.start), Infinity);
    const end = events.reduce((acc, ev) => Math.max(acc, ev.start + ev.duration), -Infinity);
    return {start, end, size: end - start, minDegree, maxDegree};
  }
  \<close>
  \<^verbatim>\<open>reduce\<close> with an initial value is \<^const>\<open>foldl\<close>.
\<close>

definition getExtents :: "event list \<Rightarrow> extents" where
  "getExtents events =
     (if length events = 0 then
        \<lparr>start_ext = Finite 0, end_ext = Finite 0, size_ext = Finite 0,
         minDegree = 0, maxDegree = real (length scaleDegrees) - 1\<rparr>
      else
        let minDegree' = foldl (\<lambda>acc ev. min acc (degree ev)) 0 events;
            maxDegree' = foldl (\<lambda>acc ev. max acc (degree ev)) (real (length scaleDegrees) - 1) events;
            start' = foldl (\<lambda>acc ev. Math_min acc (Finite (start ev))) Infinity events;
            end' = foldl (\<lambda>acc ev. Math_max acc (Finite (start ev + duration ev))) NegInfinity events
        in \<lparr>start_ext = start', end_ext = end', size_ext = number_minus end' start',
            minDegree = minDegree', maxDegree = maxDegree'\<rparr>)"

section \<open>The quantized scale mapper and the viewport\<close>

text \<open>
  Modelled from the spec: \<^verbatim>\<open>scaleDiscreteQuantized\<close> lives in \<^verbatim>\<open>./utils\<close>,
  which is not among the sources. The spec: a two-point linear fit between a
  continuous domain and a discrete range; mapping domain to range applies the fit
  and snaps the result to a multiple of \<^verbatim>\<open>stepSize\<close> with the configured rounding;
  mapping range to domain applies the inverse fit without snapping; the axes are
  addressed by their aliases; a domain with equal end points is a configuration
  error. The spec says nothing about an alias that is neither of the two; the
  model returns the value unchanged there, and no call in the sources uses one.
\<close>

datatype config_error = DegenerateScale

record quantizer =
  to :: "string \<Rightarrow> real \<Rightarrow> real"

definition linear_fit :: "real \<times> real \<Rightarrow> real \<times> real \<Rightarrow> real \<Rightarrow> real" where
  "linear_fit src dst v = fst dst + (v - fst src) * (snd dst - fst dst) / (snd src - fst src)"

definition quantizer_to ::
  "real \<times> real \<Rightarrow> real \<times> real \<Rightarrow> real \<Rightarrow> (real \<Rightarrow> real) \<Rightarrow> string \<Rightarrow> string \<Rightarrow>
   string \<Rightarrow> real \<Rightarrow> real" where
  "quantizer_to domain_pts range_pts stepSize round_policy domain_alias range_alias alias v =
     (if alias = range_alias
      then round_policy (linear_fit domain_pts range_pts v / stepSize) * stepSize
      else if alias = domain_alias then linear_fit range_pts domain_pts v
      else v)"

definition scaleDiscreteQuantized ::
  "real \<times> real \<Rightarrow> real \<times> real \<Rightarrow> real \<Rightarrow> (real \<Rightarrow> real) \<Rightarrow> string \<Rightarrow> string \<Rightarrow>
   config_error + quantizer" where
  "scaleDiscreteQuantized domain_pts range_pts stepSize round_policy domain_alias range_alias =
     (if fst domain_pts = snd domain_pts then Inl DegenerateScale
      else Inr \<lparr>to = quantizer_to domain_pts range_pts stepSize round_policy domain_alias range_alias\<rparr>)"

text \<open>\<^verbatim>\<open>Math.round\<close>: the nearest integer, a half rounding towards positive infinity.\<close>

definition Math_round :: "real \<Rightarrow> real" where
  "Math_round v = of_int \<lfloor>v + 1 / 2\<rfloor>"

text \<open>
  Modelled from the spec: \<^verbatim>\<open>useViewport\<close> lives in \<^verbatim>\<open>./viewport\<close>, which is
  not among the sources. The spec: \<^verbatim>\<open>positionToScreen\<close> is
  \<open>(worldPoint - offset) * zoom\<close> componentwise, \<^verbatim>\<open>sizeToScreen\<close> is
  \<open>worldSize * zoom\<close>, \<^verbatim>\<open>positionFromScreen\<close> and \<^verbatim>\<open>sizeFromScreen\<close> are their
  inverses, and \<^verbatim>\<open>sizeXFromScreen\<close>, \<^verbatim>\<open>sizeYFromScreen\<close> are the inverses on
  one axis. The spec's \<^verbatim>\<open>worldToScreen\<close> and \<^verbatim>\<open>screenToWorld\<close> are
  \<^verbatim>\<open>positionToScreen\<close> and \<^verbatim>\<open>positionFromScreen\<close>.
\<close>

record viewportState =
  offset :: vector2
  zoom :: vector2

record viewport =
  positionToScreen :: "vector2 \<Rightarrow> vector2"
  sizeToScreen :: "vector2 \<Rightarrow> vector2"
  positionFromScreen :: "vector2 \<Rightarrow> vector2"
  sizeFromScreen :: "vector2 \<Rightarrow> vector2"
  sizeXFromScreen :: "real \<Rightarrow> real"
  sizeYFromScreen :: "real \<Rightarrow> real"

definition useViewport :: "viewportState \<Rightarrow> viewport" where
  "useViewport s =
     \<lparr>positionToScreen = (\<lambda>p.
        \<lparr>x_coord = (x_coord p - x_coord (offset s)) * x_coord (zoom s),
         y_coord = (y_coord p - y_coord (offset s)) * y_coord (zoom s)\<rparr>),
      sizeToScreen = (\<lambda>p.
        \<lparr>x_coord = x_coord p * x_coord (zoom s), y_coord = y_coord p * y_coord (zoom s)\<rparr>),
      positionFromScreen = (\<lambda>p.
        \<lparr>x_coord = x_coord p / x_coord (zoom s) + x_coord (offset s),
         y_coord = y_coord p / y_coord (zoom s) + y_coord (offset s)\<rparr>),
      sizeFromScreen = (\<lambda>p.
        \<lparr>x_coord = x_coord p / x_coord (zoom s), y_coord = y_coord p / y_coord (zoom s)\<rparr>),
      sizeXFromScreen = (\<lambda>dx. dx / x_coord (zoom s)),
      sizeYFromScreen = (\<lambda>dy. dy / y_coord (zoom s))\<rparr>"

section \<open>The drag-move handler\<close>

text \<open>
  The second argument of \<^verbatim>\<open>onDragMove\<close>: the pointer positions at drag start
  and now, \<^verbatim>\<open>{from, to}\<close>.
\<close>

record drag_pos =
  from_pos :: vector2
  to_pos :: vector2

text \<open>\<^verbatim>\<open>pos.to.clone().sub(pos.from)\<close>: the componentwise difference.\<close>

definition vector2_sub :: "vector2 \<Rightarrow> vector2 \<Rightarrow> vector2" where
  "vector2_sub a b = \<lparr>x_coord = x_coord a - x_coord b, y_coord = y_coord a - y_coord b\<rparr>"

text \<open>\<^verbatim>\<open>new Map(entries)\<close> sets the entries in order: a later entry of a key replaces an earlier one.\<close>

definition new_Map :: "('k \<times> 'v) list \<Rightarrow> ('k \<rightharpoonup> 'v)" where
  "new_Map entries = foldl (\<lambda>m (k, v). m(k \<mapsto> v)) Map.empty entries"

text \<open>
  \<^verbatim>\<open>
  const onDragMove = useCallback(
    (draggedEvents, pos) => {
      const delta = pos.to.clone().sub(pos.from);
      const draggedEventsMap = new Map(draggedEvents.map((ev) => [ev.id, ev]));
      setEvents((events) =>
        events.map((ev) => {
          if (draggedEventsMap.has(ev.id)) {
            const deltaXQuantized = quantizerX.to('quarterNotes', viewport.sizeXFromScreen(delta.x));
            const deltaYQuantized = quantizerY.to('scaleDegrees', viewport.sizeYFromScreen(delta.y));
            const eventBeforeDrag = draggedEventsMap.get(ev.id);
            return {
              ...ev,
              // as the delta is since drag start, we need to use the copy of
              // the event at drag start
              start: eventBeforeDrag.start + deltaXQuantized,
              degree: eventBeforeDrag.degree + deltaYQuantized,
            };
          }
          return ev;
        })
      );
    },
    [viewport, quantizerX, quantizerY]
  );
  \<close>
  The model takes the three captured values \<^verbatim>\<open>quantizerX\<close>, \<^verbatim>\<open>quantizerY\<close> and
  \<^verbatim>\<open>viewport\<close> as its first parameters, and returns the function handed to
  \<^verbatim>\<open>setEvents\<close> applied to the current list of events.
\<close>

definition onDragMove ::
  "quantizer \<Rightarrow> quantizer \<Rightarrow> viewport \<Rightarrow> event list \<Rightarrow> drag_pos \<Rightarrow> event list \<Rightarrow> event list" where
  "onDragMove qx qy vp draggedEvents pos events =
     (let delta = vector2_sub (to_pos pos) (from_pos pos);
          draggedEventsMap = new_Map (map (\<lambda>ev. (id_ev ev, ev)) draggedEvents)
      in map (\<lambda>ev.
           case draggedEventsMap (id_ev ev) of
             Some eventBeforeDrag \<Rightarrow>
               let deltaXQuantized = to qx ''quarterNotes'' (sizeXFromScreen vp (x_coord delta));
                   deltaYQuantized = to qy ''scaleDegrees'' (sizeYFromScreen vp (y_coord delta))
               in ev\<lparr>start := start eventBeforeDrag + deltaXQuantized,
                      degree := degree eventBeforeDrag + deltaYQuantized\<rparr>
           | None \<Rightarrow> ev) events)"

text \<open>
  The two quantizers of \<^verbatim>\<open>App\<close>:
  \<^verbatim>\<open>
  const TIMELINE_ROW_HEIGHT = 20;
  const QUARTER_NOTE_WIDTH = 10;
  quantizerY = scaleDiscreteQuantized(
    [0, (scaleDegrees.length - 1) * TIMELINE_ROW_HEIGHT],
    [scaleDegrees[0], scaleDegrees[scaleDegrees.length - 1]],
    {stepSize: 1, round: Math.round, alias: {domain: 'pixels', range: 'scaleDegrees'}})
  quantizerX = scaleDiscreteQuantized(
    [0, QUARTER_NOTE_WIDTH], [0, 1],
    {stepSize: 1, round: Math.round, alias: {domain: 'pixels', range: 'quarterNotes'}})
  \<close>
\<close>

definition TIMELINE_ROW_HEIGHT :: real where
  "TIMELINE_ROW_HEIGHT = 20"

definition QUARTER_NOTE_WIDTH :: real where
  "QUARTER_NOTE_WIDTH = 10"

definition quantizerY :: "config_error + quantizer" where
  "quantizerY =
     scaleDiscreteQuantized
       (0, (real (length scaleDegrees) - 1) * TIMELINE_ROW_HEIGHT)
       (scaleDegrees ! 0, scaleDegrees ! (length scaleDegrees - 1))
       1 Math_round ''pixels'' ''scaleDegrees''"

definition quantizerX :: "config_error + quantizer" where
  "quantizerX =
     scaleDiscreteQuantized (0, QUARTER_NOTE_WIDTH) (0, 1) 1 Math_round ''pixels'' ''quarterNotes''"

section \<open>Sample inputs\<close>

text \<open>
  Three drawn rectangles, the second overlapping the first, and a query rectangle
  that meets the second and the third.
\<close>

definition sample_drawn :: "nat drawn_element list" where
  "sample_drawn =
     [\<lparr>rect = \<lparr>position = \<lparr>x_coord = 0, y_coord = 0\<rparr>, size_rect = \<lparr>x_coord = 10, y_coord = 10\<rparr>\<rparr>, object = 0\<rparr>,
      \<lparr>rect = \<lparr>position = \<lparr>x_coord = 5, y_coord = 5\<rparr>, size_rect = \<lparr>x_coord = 10, y_coord = 10\<rparr>\<rparr>, object = 1\<rparr>,
      \<lparr>rect = \<lparr>position = \<lparr>x_coord = 20, y_coord = 20\<rparr>, size_rect = \<lparr>x_coord = 5, y_coord = 5\<rparr>\<rparr>, object = 2\<rparr>]"

definition sample_query :: rect where
  "sample_query = \<lparr>position = \<lparr>x_coord = 12, y_coord = 12\<rparr>, size_rect = \<lparr>x_coord = 20, y_coord = 20\<rparr>\<rparr>"

text \<open>A viewport panned to \<open>(3, -2)\<close> and zoomed by \<open>2\<close> and \<open>4\<close>.\<close>

definition sample_viewportState :: viewportState where
  "sample_viewportState =
     \<lparr>offset = \<lparr>x_coord = 3, y_coord = - 2\<rparr>, zoom = \<lparr>x_coord = 2, y_coord = 4\<rparr>\<rparr>"

text \<open>
  Quantizers configured as in \<^verbatim>\<open>App\<close>, a viewport at zoom \<open>1\<close>, and a drag of
  the second initial event whose live copy in the list has already been moved to
  start \<open>9\<close> and degree \<open>2\<close> by earlier moves of the same drag.
\<close>

definition sample_qx :: quantizer where
  "sample_qx = \<lparr>to = quantizer_to (0, 10) (0, 1) 1 Math_round ''pixels'' ''quarterNotes''\<rparr>"

definition sample_qy :: quantizer where
  "sample_qy = \<lparr>to = quantizer_to (0, 120) (0, 6) 1 Math_round ''pixels'' ''scaleDegrees''\<rparr>"

definition unit_viewportState :: viewportState where
  "unit_viewportState =
     \<lparr>offset = \<lparr>x_coord = 0, y_coord = 0\<rparr>, zoom = \<lparr>x_coord = 1, y_coord = 1\<rparr>\<rparr>"

definition sample_dragged :: "event list" where
  "sample_dragged = [\<lparr>id_ev = 1, degree = 3, start = 4, duration = 1\<rparr>]"

definition sample_live :: "event list" where
  "sample_live =
     [\<lparr>id_ev = 0, degree = 0, start = 0, duration = 1\<rparr>,
      \<lparr>id_ev = 1, degree = 2, start = 9, duration = 1\<rparr>]"

definition sample_pos :: drag_pos where
  "sample_pos = \<lparr>from_pos = \<lparr>x_coord = 100, y_coord = 50\<rparr>, to_pos = \<lparr>x_coord = 131, y_coord = 92\<rparr>\<rparr>"



section \<open>Properties of hit-testing\<close>

lemma getIntersectingEvent_loop_None:
  "getIntersectingEvent_loop cp point els n = None \<longleftrightarrow> (\<forall>i<n. \<not> cp (rect (els ! i)) point)"
  by (induction n) (auto simp: less_Suc_eq)

lemma getIntersectingEvent_loop_Some:
  assumes "i < n" "cp (rect (els ! i)) point" "\<forall>j<n. i < j \<longrightarrow> \<not> cp (rect (els ! j)) point"
  shows "getIntersectingEvent_loop cp point els n = Some (object (els ! i))"
  using assms
proof (induction n)
  case 0
  then show ?case by simp
next
  case (Suc n)
  show ?case
  proof (cases "i = n")
    case True
    with Suc.prems show ?thesis by simp
  next
    case False
    with Suc.prems have "i < n" by simp
    moreover from Suc.prems \<open>i < n\<close> have "\<not> cp (rect (els ! n)) point" by simp
    moreover from Suc.prems have "\<forall>j<n. i < j \<longrightarrow> \<not> cp (rect (els ! j)) point" by simp
    ultimately show ?thesis using Suc.IH Suc.prems(2) by simp
  qed
qed

lemma findIntersectingEvents_loop_eq:
  "n \<le> length els \<Longrightarrow>
   findIntersectingEvents_loop ir r els n acc =
     acc @ rev (map object (filter (\<lambda>e. ir (rect e) r) (take n els)))"
  by (induction n arbitrary: acc) (simp_all add: take_Suc_conv_app_nth)

lemma findIntersectingEvents_eq:
  "findIntersectingEvents ir r els = rev (map object (filter (\<lambda>e. ir (rect e) r) els))"
  by (simp add: findIntersectingEvents_def findIntersectingEvents_loop_eq)

text \<open>
  C1. For every point and every list of drawn elements, point hit-testing returns
  the object of the topmost rectangle containing the point, that is the one of
  highest index in the list, and returns null when no drawn rectangle contains
  the point.
\<close>

theorem getIntersectingEvent_topmost:
  "((\<forall>i<length els. \<not> cp (rect (els ! i)) point) \<longrightarrow>
      getIntersectingEvent cp point els = None) \<and>
   (\<forall>i<length els.
      cp (rect (els ! i)) point \<and> (\<forall>j<length els. i < j \<longrightarrow> \<not> cp (rect (els ! j)) point) \<longrightarrow>
      getIntersectingEvent cp point els = Some (object (els ! i)))"
  unfolding getIntersectingEvent_def
  by (simp add: getIntersectingEvent_loop_None getIntersectingEvent_loop_Some)

text \<open>
  C2. For every query rectangle and every list of drawn elements with pairwise
  distinct objects, box hit-testing returns exactly the objects whose rectangles
  intersect the query: each intersecting object is in the result, no object of a
  non-intersecting rectangle is, and no object occurs twice.
\<close>

theorem findIntersectingEvents_exact:
  assumes "distinct (map object els)"
  shows "(\<forall>i<length els.
            object (els ! i) \<in> set (findIntersectingEvents ir r els) \<longleftrightarrow> ir (rect (els ! i)) r) \<and>
         set (findIntersectingEvents ir r els) \<subseteq> object ` set els \<and>
         distinct (findIntersectingEvents ir r els)"
proof (intro conjI allI impI)
  fix i assume i: "i < length els"
  show "object (els ! i) \<in> set (findIntersectingEvents ir r els) \<longleftrightarrow> ir (rect (els ! i)) r"
  proof
    assume "object (els ! i) \<in> set (findIntersectingEvents ir r els)"
    then obtain e where e: "e \<in> set els" "ir (rect e) r" "object e = object (els ! i)"
      by (auto simp: findIntersectingEvents_eq)
    from assms have "inj_on object (set els)" by (simp add: distinct_map)
    with e i have "e = els ! i" by (auto dest: inj_onD)
    with e show "ir (rect (els ! i)) r" by simp
  next
    assume "ir (rect (els ! i)) r"
    with i show "object (els ! i) \<in> set (findIntersectingEvents ir r els)"
      by (auto simp: findIntersectingEvents_eq)
  qed
next
  show "set (findIntersectingEvents ir r els) \<subseteq> object ` set els"
    by (auto simp: findIntersectingEvents_eq)
next
  from assms show "distinct (findIntersectingEvents ir r els)"
    by (simp add: findIntersectingEvents_eq distinct_map_filter)
qed

lemma sample_drawn_length: "length sample_drawn = 3"
  by (simp add: sample_drawn_def)

lemma all_less_3: "(\<forall>i<3::nat. P i) \<longleftrightarrow> P 0 \<and> P 1 \<and> P 2"
  by (auto simp: numeral_3_eq_3 numeral_2_eq_2 All_less_Suc)

theorem getIntersectingEvent_topmost_witness:
  "containsPoint (rect (sample_drawn ! 0)) \<lparr>x_coord = 6, y_coord = 6\<rparr> \<and>
   containsPoint (rect (sample_drawn ! 1)) \<lparr>x_coord = 6, y_coord = 6\<rparr> \<and>
   \<not> containsPoint (rect (sample_drawn ! 2)) \<lparr>x_coord = 6, y_coord = 6\<rparr> \<and>
   getIntersectingEvent containsPoint \<lparr>x_coord = 6, y_coord = 6\<rparr> sample_drawn = Some 1 \<and>
   \<not> containsPoint (rect (sample_drawn ! 0)) \<lparr>x_coord = 50, y_coord = 6\<rparr> \<and>
   \<not> containsPoint (rect (sample_drawn ! 1)) \<lparr>x_coord = 50, y_coord = 6\<rparr> \<and>
   \<not> containsPoint (rect (sample_drawn ! 2)) \<lparr>x_coord = 50, y_coord = 6\<rparr> \<and>
   getIntersectingEvent containsPoint \<lparr>x_coord = 50, y_coord = 6\<rparr> sample_drawn = None"
proof -
  let ?p = "\<lparr>x_coord = 6, y_coord = 6\<rparr>" and ?q = "\<lparr>x_coord = 50, y_coord = 6\<rparr>"
  have at_p: "containsPoint (rect (sample_drawn ! 0)) ?p"
    "containsPoint (rect (sample_drawn ! 1)) ?p"
    "\<not> containsPoint (rect (sample_drawn ! 2)) ?p"
    by (simp_all add: sample_drawn_def containsPoint_def)
  have at_q: "\<not> containsPoint (rect (sample_drawn ! 0)) ?q"
    "\<not> containsPoint (rect (sample_drawn ! 1)) ?q"
    "\<not> containsPoint (rect (sample_drawn ! 2)) ?q"
    by (simp_all add: sample_drawn_def containsPoint_def)
  from at_p have top: "containsPoint (rect (sample_drawn ! 1)) ?p \<and>
        (\<forall>j<length sample_drawn. 1 < j \<longrightarrow> \<not> containsPoint (rect (sample_drawn ! j)) ?p)"
    by (simp add: sample_drawn_length all_less_3)
  from at_q have none: "\<forall>i<length sample_drawn. \<not> containsPoint (rect (sample_drawn ! i)) ?q"
    by (simp add: sample_drawn_length all_less_3)
  have len: "1 < length sample_drawn" by (simp add: sample_drawn_length)
  have ob: "object (sample_drawn ! 1) = 1" by (simp add: sample_drawn_def)
  from getIntersectingEvent_topmost [of sample_drawn containsPoint ?p] top len
  have "getIntersectingEvent containsPoint ?p sample_drawn = Some (object (sample_drawn ! 1))"
    by blast
  moreover from getIntersectingEvent_topmost [of sample_drawn containsPoint ?q] none
  have "getIntersectingEvent containsPoint ?q sample_drawn = None"
    by blast
  ultimately show ?thesis using at_p at_q ob by simp
qed

theorem findIntersectingEvents_exact_witness:
  "distinct (map object sample_drawn) \<and>
   set (findIntersectingEvents intersectsRect sample_query sample_drawn) = {1, 2} \<and>
   distinct (findIntersectingEvents intersectsRect sample_query sample_drawn)"
proof -
  have d: "distinct (map object sample_drawn)" by (simp add: sample_drawn_def)
  note h = findIntersectingEvents_exact [OF d, of intersectsRect sample_query]
  have i: "\<not> intersectsRect (rect (sample_drawn ! 0)) sample_query"
     "intersectsRect (rect (sample_drawn ! 1)) sample_query"
     "intersectsRect (rect (sample_drawn ! 2)) sample_query"
    by (simp_all add: sample_drawn_def sample_query_def intersectsRect_def)
  have o: "object ` set sample_drawn = {0, 1, 2}" "object (sample_drawn ! 0) = 0"
    "object (sample_drawn ! 1) = 1" "object (sample_drawn ! 2) = 2"
    by (auto simp add: sample_drawn_def)
  from h i o have "0 \<notin> set (findIntersectingEvents intersectsRect sample_query sample_drawn)"
    "1 \<in> set (findIntersectingEvents intersectsRect sample_query sample_drawn)"
    "2 \<in> set (findIntersectingEvents intersectsRect sample_query sample_drawn)"
    "set (findIntersectingEvents intersectsRect sample_query sample_drawn) \<subseteq> {0, 1, 2}"
    by (simp_all add: sample_drawn_length all_less_3)
  then have "set (findIntersectingEvents intersectsRect sample_query sample_drawn) = {1, 2}"
    by auto
  with d h show ?thesis by simp
qed

section \<open>Properties of the extents\<close>

lemma foldl_min_degree_le: "foldl (\<lambda>acc ev. min acc (degree ev)) a evs \<le> a"
proof (induction evs arbitrary: a)
  case Nil
  show ?case by simp
next
  case (Cons e evs)
  have "foldl (\<lambda>acc ev. min acc (degree ev)) (min a (degree e)) evs \<le> min a (degree e)"
    by (rule Cons.IH)
  then show ?case by simp
qed

lemma foldl_max_degree_ge: "a \<le> foldl (\<lambda>acc ev. max acc (degree ev)) a evs"
proof (induction evs arbitrary: a)
  case Nil
  show ?case by simp
next
  case (Cons e evs)
  have "max a (degree e) \<le> foldl (\<lambda>acc ev. max acc (degree ev)) (max a (degree e)) evs"
    by (rule Cons.IH)
  then show ?case by simp
qed

lemma scaleDegrees_length: "real (length scaleDegrees) - 1 = 6"
  by (simp add: scaleDegrees_def)

lemma getExtents_initialEvents:
  "getExtents initialEvents =
     \<lparr>start_ext = Finite 0, end_ext = Finite 9, size_ext = Finite 9, minDegree = 0, maxDegree = 6\<rparr>"
  by (simp add: getExtents_def initialEvents_def scaleDegrees_length Let_def)

text \<open>
  C9. For every list of events the extents have \<open>minDegree \<le> 0\<close> and
  \<open>maxDegree \<ge> scaleDegrees.length - 1\<close>, which is \<open>6\<close>: the degree range always
  covers the seven degrees of the scale. For the empty list the extents are
  start \<open>0\<close>, end \<open>0\<close>, size \<open>0\<close>, minDegree \<open>0\<close> and maxDegree \<open>6\<close>.
\<close>

theorem getExtents_degree_range:
  "minDegree (getExtents events) \<le> 0 \<and>
   real (length scaleDegrees) - 1 \<le> maxDegree (getExtents events) \<and>
   real (length scaleDegrees) - 1 = 6 \<and>
   getExtents [] =
     \<lparr>start_ext = Finite 0, end_ext = Finite 0, size_ext = Finite 0, minDegree = 0, maxDegree = 6\<rparr>"
proof (intro conjI)
  show "minDegree (getExtents events) \<le> 0"
    by (simp add: getExtents_def Let_def foldl_min_degree_le)
  show "real (length scaleDegrees) - 1 \<le> maxDegree (getExtents events)"
    by (simp add: getExtents_def Let_def foldl_max_degree_ge)
  show "real (length scaleDegrees) - 1 = 6"
    by (rule scaleDegrees_length)
  show "getExtents [] =
     \<lparr>start_ext = Finite 0, end_ext = Finite 0, size_ext = Finite 0, minDegree = 0, maxDegree = 6\<rparr>"
    by (simp add: getExtents_def scaleDegrees_length)
qed

section \<open>Properties of the viewport\<close>

text \<open>
  C8. For every viewport state with positive zoom on both axes and every world
  point, mapping the point to the screen and back gives the point again; the same
  holds for sizes. Over the reals the round trip is exact: the viewport does not
  quantize.
\<close>

theorem viewport_round_trip:
  assumes "0 < x_coord (zoom s)" and "0 < y_coord (zoom s)"
  shows "positionFromScreen (useViewport s) (positionToScreen (useViewport s) p) = p \<and>
         sizeFromScreen (useViewport s) (sizeToScreen (useViewport s) p) = p"
  using assms by (simp add: useViewport_def)

theorem viewport_round_trip_witness:
  "0 < x_coord (zoom sample_viewportState) \<and> 0 < y_coord (zoom sample_viewportState) \<and>
   positionToScreen (useViewport sample_viewportState) \<lparr>x_coord = 5, y_coord = 7\<rparr> =
     \<lparr>x_coord = 4, y_coord = 36\<rparr> \<and>
   positionFromScreen (useViewport sample_viewportState)
     (positionToScreen (useViewport sample_viewportState) \<lparr>x_coord = 5, y_coord = 7\<rparr>) =
     \<lparr>x_coord = 5, y_coord = 7\<rparr>"
proof -
  have zx: "0 < x_coord (zoom sample_viewportState)"
    and zy: "0 < y_coord (zoom sample_viewportState)"
    by (simp_all add: sample_viewportState_def)
  have "positionToScreen (useViewport sample_viewportState) \<lparr>x_coord = 5, y_coord = 7\<rparr> =
     \<lparr>x_coord = 4, y_coord = 36\<rparr>"
    by (simp add: useViewport_def sample_viewportState_def)
  with zx zy viewport_round_trip [OF zx zy, of "\<lparr>x_coord = 5, y_coord = 7\<rparr>"]
  show ?thesis by simp
qed

section \<open>Properties of the drag-move handler\<close>

lemma new_Map_foldl:
  "foldl (\<lambda>m (k, v). m(k \<mapsto> v)) m xs = m ++ map_of (rev xs)"
  by (induction xs arbitrary: m) (auto simp: map_add_def fun_eq_iff split: option.splits)

lemma new_Map_eq: "new_Map xs = map_of (rev xs)"
  by (simp add: new_Map_def new_Map_foldl)

lemma new_Map_None:
  "new_Map (map (\<lambda>ev. (id_ev ev, ev)) ds) k = None \<longleftrightarrow> k \<notin> id_ev ` set ds"
  by (simp add: new_Map_eq map_of_eq_None_iff image_image)

lemma new_Map_Some:
  assumes "new_Map (map (\<lambda>ev. (id_ev ev, ev)) ds) k = Some snap"
  shows "snap \<in> set ds \<and> id_ev snap = k"
proof -
  from assms have "(k, snap) \<in> set (map (\<lambda>ev. (id_ev ev, ev)) ds)"
    by (auto simp: new_Map_eq dest: map_of_SomeD)
  then show ?thesis by auto
qed

lemma onDragMove_nth:
  assumes "i < length events"
  shows "onDragMove qx qy vp ds pos events ! i =
     (case new_Map (map (\<lambda>ev. (id_ev ev, ev)) ds) (id_ev (events ! i)) of
        Some snap \<Rightarrow>
          (events ! i)
            \<lparr>start := start snap +
               to qx ''quarterNotes'' (sizeXFromScreen vp (x_coord (to_pos pos) - x_coord (from_pos pos))),
             degree := degree snap +
               to qy ''scaleDegrees'' (sizeYFromScreen vp (y_coord (to_pos pos) - y_coord (from_pos pos)))\<rparr>
      | None \<Rightarrow> events ! i)"
  using assms
  by (simp add: onDragMove_def Let_def vector2_sub_def split: option.splits)

lemma onDragMove_length: "length (onDragMove qx qy vp ds pos events) = length events"
  by (simp add: onDragMove_def Let_def)

lemma onDragMove_twice:
  "onDragMove qx qy vp ds pos' (onDragMove qx qy vp ds pos events) =
   onDragMove qx qy vp ds pos' events"
proof (rule nth_equalityI)
  show "length (onDragMove qx qy vp ds pos' (onDragMove qx qy vp ds pos events)) =
        length (onDragMove qx qy vp ds pos' events)"
    by (simp add: onDragMove_length)
next
  fix i assume "i < length (onDragMove qx qy vp ds pos' (onDragMove qx qy vp ds pos events))"
  then have i: "i < length events" by (simp add: onDragMove_length)
  then have i': "i < length (onDragMove qx qy vp ds pos events)" by (simp add: onDragMove_length)
  show "onDragMove qx qy vp ds pos' (onDragMove qx qy vp ds pos events) ! i =
        onDragMove qx qy vp ds pos' events ! i"
  proof (cases "new_Map (map (\<lambda>ev. (id_ev ev, ev)) ds) (id_ev (events ! i))")
    case None
    with i i' show ?thesis
      by (simp add: onDragMove_nth [OF i'] onDragMove_nth [OF i])
  next
    case (Some snap)
    with i i' show ?thesis
      by (simp add: onDragMove_nth [OF i'] onDragMove_nth [OF i])
  qed
qed

text \<open>
  C6. For every drag-move and every event of the list whose id is among the dragged
  ids, the new event is the old one with its start set to the start of a pre-drag
  snapshot of that id plus the quantized world delta along x, and its degree set
  to the snapshot's degree plus the quantized world delta along y. The live start
  and degree of the event do not enter: a later move of the same drag applied to
  the already moved list gives what it gives on the list before the drag moved it,
  so rounding does not compound.
\<close>

theorem onDragMove_uses_snapshot:
  "(\<forall>i<length events. id_ev (events ! i) \<in> id_ev ` set draggedEvents \<longrightarrow>
      (\<exists>snap\<in>set draggedEvents. id_ev snap = id_ev (events ! i) \<and>
         onDragMove qx qy vp draggedEvents pos events ! i =
           (events ! i)
             \<lparr>start := start snap +
                to qx ''quarterNotes'' (sizeXFromScreen vp (x_coord (to_pos pos) - x_coord (from_pos pos))),
              degree := degree snap +
                to qy ''scaleDegrees'' (sizeYFromScreen vp (y_coord (to_pos pos) - y_coord (from_pos pos)))\<rparr>)) \<and>
   onDragMove qx qy vp draggedEvents pos' (onDragMove qx qy vp draggedEvents pos events) =
     onDragMove qx qy vp draggedEvents pos' events"
proof (intro conjI allI impI)
  fix i assume i: "i < length events"
    and dragged: "id_ev (events ! i) \<in> id_ev ` set draggedEvents"
  from dragged obtain snap
    where snap: "new_Map (map (\<lambda>ev. (id_ev ev, ev)) draggedEvents) (id_ev (events ! i)) = Some snap"
    using new_Map_None [of draggedEvents "id_ev (events ! i)"] by auto
  from new_Map_Some [OF snap] have "snap \<in> set draggedEvents" "id_ev snap = id_ev (events ! i)"
    by simp_all
  moreover from i snap have "onDragMove qx qy vp draggedEvents pos events ! i =
      (events ! i)
        \<lparr>start := start snap +
           to qx ''quarterNotes'' (sizeXFromScreen vp (x_coord (to_pos pos) - x_coord (from_pos pos))),
         degree := degree snap +
           to qy ''scaleDegrees'' (sizeYFromScreen vp (y_coord (to_pos pos) - y_coord (from_pos pos)))\<rparr>"
    by (simp add: onDragMove_nth)
  ultimately show "\<exists>snap\<in>set draggedEvents. id_ev snap = id_ev (events ! i) \<and>
         onDragMove qx qy vp draggedEvents pos events ! i =
           (events ! i)
             \<lparr>start := start snap +
                to qx ''quarterNotes'' (sizeXFromScreen vp (x_coord (to_pos pos) - x_coord (from_pos pos))),
              degree := degree snap +
                to qy ''scaleDegrees'' (sizeYFromScreen vp (y_coord (to_pos pos) - y_coord (from_pos pos)))\<rparr>"
    by blast
next
  show "onDragMove qx qy vp draggedEvents pos' (onDragMove qx qy vp draggedEvents pos events) =
     onDragMove qx qy vp draggedEvents pos' events"
    by (rule onDragMove_twice)
qed

text \<open>
  C10. For every drag-move the updated list has the length of the old one, and an
  event whose id is not among the dragged ids is in it unchanged, at its place.
\<close>

theorem onDragMove_frame:
  "length (onDragMove qx qy vp draggedEvents pos events) = length events \<and>
   (\<forall>i<length events. id_ev (events ! i) \<notin> id_ev ` set draggedEvents \<longrightarrow>
      onDragMove qx qy vp draggedEvents pos events ! i = events ! i)"
  by (simp add: onDragMove_length onDragMove_nth new_Map_None [THEN iffD2])


lemma sample_qx_31: "to sample_qx ''quarterNotes'' 31 = 3"
  by (simp add: sample_qx_def quantizer_to_def linear_fit_def Math_round_def)

lemma sample_qy_42: "to sample_qy ''scaleDegrees'' 42 = 2"
  by (simp add: sample_qy_def quantizer_to_def linear_fit_def Math_round_def)

theorem onDragMove_uses_snapshot_witness:
  "id_ev (sample_live ! 1) \<in> id_ev ` set sample_dragged \<and>
   start (sample_live ! 1) = 9 \<and>
   onDragMove sample_qx sample_qy (useViewport unit_viewportState) sample_dragged sample_pos sample_live ! 1 =
     \<lparr>id_ev = 1, degree = 5, start = 7, duration = 1\<rparr>"
proof -
  let ?vp = "useViewport unit_viewportState"
  have len: "1 < length sample_live" by (simp add: sample_live_def)
  have dragged: "id_ev (sample_live ! 1) \<in> id_ev ` set sample_dragged"
    by (simp add: sample_live_def sample_dragged_def)
  from onDragMove_uses_snapshot [of sample_live sample_dragged sample_qx sample_qy ?vp sample_pos]
    len dragged
  obtain snap where snap: "snap \<in> set sample_dragged"
    and res: "onDragMove sample_qx sample_qy ?vp sample_dragged sample_pos sample_live ! 1 =
      (sample_live ! 1)
        \<lparr>start := start snap +
           to sample_qx ''quarterNotes''
             (sizeXFromScreen ?vp (x_coord (to_pos sample_pos) - x_coord (from_pos sample_pos))),
         degree := degree snap +
           to sample_qy ''scaleDegrees''
             (sizeYFromScreen ?vp (y_coord (to_pos sample_pos) - y_coord (from_pos sample_pos)))\<rparr>"
    by blast
  from snap have "snap = \<lparr>id_ev = 1, degree = 3, start = 4, duration = 1\<rparr>"
    by (simp add: sample_dragged_def)
  moreover have "sizeXFromScreen ?vp (x_coord (to_pos sample_pos) - x_coord (from_pos sample_pos)) = 31"
    "sizeYFromScreen ?vp (y_coord (to_pos sample_pos) - y_coord (from_pos sample_pos)) = 42"
    by (simp_all add: useViewport_def unit_viewportState_def sample_pos_def)
  ultimately have "onDragMove sample_qx sample_qy ?vp sample_dragged sample_pos sample_live ! 1 =
      \<lparr>id_ev = 1, degree = 5, start = 7, duration = 1\<rparr>"
    using res by (simp add: sample_qx_31 sample_qy_42 sample_live_def)
  moreover have "start (sample_live ! 1) = 9" by (simp add: sample_live_def)
  ultimately show ?thesis using dragged by simp
qed

theorem onDragMove_frame_witness:
  "id_ev (sample_live ! 0) \<notin> id_ev ` set sample_dragged \<and>
   length (onDragMove sample_qx sample_qy (useViewport unit_viewportState) sample_dragged sample_pos sample_live) = 2 \<and>
   onDragMove sample_qx sample_qy (useViewport unit_viewportState) sample_dragged sample_pos sample_live ! 0 =
     \<lparr>id_ev = 0, degree = 0, start = 0, duration = 1\<rparr>"
proof -
  have len: "0 < length sample_live" "length sample_live = 2" by (simp_all add: sample_live_def)
  have other: "id_ev (sample_live ! 0) \<notin> id_ev ` set sample_dragged"
    by (simp add: sample_live_def sample_dragged_def)
  from onDragMove_frame [of sample_qx sample_qy "useViewport unit_viewportState" sample_dragged
      sample_pos sample_live] len other
  have "length (onDragMove sample_qx sample_qy (useViewport unit_viewportState) sample_dragged sample_pos sample_live) = 2"
    "onDragMove sample_qx sample_qy (useViewport unit_viewportState) sample_dragged sample_pos sample_live ! 0 =
      sample_live ! 0"
    by simp_all
  moreover have "sample_live ! 0 = \<lparr>id_ev = 0, degree = 0, start = 0, duration = 1\<rparr>"
    by (simp add: sample_live_def)
  ultimately show ?thesis using other by simp
qed

text \<open>The sample quantizers are those \<^verbatim>\<open>App\<close> configures.\<close>

lemma quantizerX_eq: "quantizerX = Inr sample_qx"
  by (simp add: quantizerX_def scaleDiscreteQuantized_def QUARTER_NOTE_WIDTH_def sample_qx_def)

lemma quantizerY_eq: "quantizerY = Inr sample_qy"
  by (simp add: quantizerY_def scaleDiscreteQuantized_def TIMELINE_ROW_HEIGHT_def scaleDegrees_def
      sample_qy_def)



section \<open>Properties of the box-select behavior\<close>

lemma run_Nil: "run gsb [] s = s"
  by (simp add: run_def)

lemma run_Cons: "run gsb (i # ins) s = run gsb ins (dispatch gsb i s)"
  by (simp add: run_def)

lemmas handler_defs =
  new_SelectBoxBehavior_def setEnabled_def onMouseDown_def onMouseUp_def onMouseOut_def
  onMouseMove_def

text \<open>
  C3. The claim has a mouse-up in the idle state report no selection. The handler
  \<^verbatim>\<open>onMouseUp\<close> tests \<^verbatim>\<open>enabled\<close> only, not \<^verbatim>\<open>selecting\<close>: on a freshly
  enabled behavior, idle and with no mouse-down so far, a mouse-up calls
  \<^verbatim>\<open>onSelectRect\<close> with the box of the two initial vectors.
\<close>

theorem mouse_up_while_idle_commits:
  "selecting (run gsb [SetEnabled True] (new_SelectBoxBehavior v0)) = False \<and>
   onSelectRect_calls (run gsb [SetEnabled True] (new_SelectBoxBehavior v0)) = [] \<and>
   onSelectRect_calls (run gsb [SetEnabled True, MouseUp p] (new_SelectBoxBehavior v0)) = [gsb v0 v0]"
  by (simp add: run_Cons run_Nil handler_defs)

text \<open>
  C4. A mouse-out during a gesture clears the visual box, ends the selecting state
  and calls nothing. The claim has no later event commit that gesture's rectangle.
  The mouse-up that follows the mouse-out calls \<^verbatim>\<open>onSelectRect\<close> with the box
  from the anchor \<open>a\<close> to the last point \<open>b\<close> of the aborted gesture.
\<close>

theorem mouse_up_after_mouse_out_commits:
  "selectionBox_rendered
     (run gsb [SetEnabled True, MouseDown a, MouseMove b, MouseOut c] (new_SelectBoxBehavior v0)) = None \<and>
   selecting
     (run gsb [SetEnabled True, MouseDown a, MouseMove b, MouseOut c] (new_SelectBoxBehavior v0)) = False \<and>
   onSelectRect_calls
     (run gsb [SetEnabled True, MouseDown a, MouseMove b, MouseOut c] (new_SelectBoxBehavior v0)) = [] \<and>
   onSelectRect_calls
     (run gsb [SetEnabled True, MouseDown a, MouseMove b, MouseOut c, MouseUp d]
        (new_SelectBoxBehavior v0)) = [gsb a b]"
  by (simp add: run_Cons run_Nil handler_defs)

text \<open>
  While the behavior is not enabled no handler calls \<^verbatim>\<open>onSelectRect\<close>, whatever
  mouse events arrive.
\<close>

lemma disabled_dispatch:
  assumes "enabled s \<noteq> Some True" and "i \<noteq> SetEnabled True"
  shows "enabled (dispatch gsb i s) \<noteq> Some True \<and>
         onSelectRect_calls (dispatch gsb i s) = onSelectRect_calls s"
proof (cases i)
  case (SetEnabled en)
  with assms have "en = False" by simp
  with SetEnabled assms(1) show ?thesis by (simp add: setEnabled_def)
qed (use assms in \<open>simp_all add: handler_defs\<close>)

lemma disabled_run:
  assumes "enabled s \<noteq> Some True" and "SetEnabled True \<notin> set ins"
  shows "enabled (run gsb ins s) \<noteq> Some True \<and>
         onSelectRect_calls (run gsb ins s) = onSelectRect_calls s"
  using assms
proof (induction ins arbitrary: s)
  case Nil
  then show ?case by (simp add: run_Nil)
next
  case (Cons i ins)
  from Cons.prems have i: "i \<noteq> SetEnabled True" and rest: "SetEnabled True \<notin> set ins"
    by auto
  from disabled_dispatch [OF Cons.prems(1) i, of gsb]
  have en: "enabled (dispatch gsb i s) \<noteq> Some True"
    and calls: "onSelectRect_calls (dispatch gsb i s) = onSelectRect_calls s"
    by simp_all
  from Cons.IH [OF en rest] calls show ?case by (simp add: run_Cons)
qed

text \<open>
  C5. The claim has the disabling clear the in-progress visual selection box and
  the following mouse-up commit nothing. No selection is committed, but the box
  does not stay cleared: \<^verbatim>\<open>setEnabled(false)\<close> renders \<^verbatim>\<open>null\<close> and leaves
  \<^verbatim>\<open>selecting\<close> true, \<^verbatim>\<open>onMouseMove\<close> tests \<^verbatim>\<open>selecting\<close> only, not
  \<^verbatim>\<open>enabled\<close>, so the next mouse-move of the gesture draws the box again, from
  the anchor \<open>a\<close> to the new point \<open>c\<close>, and the mouse-up of the disabled behavior
  returns before it clears anything.
\<close>

theorem disabled_move_redraws_box:
  "selectionBox_rendered
     (run gsb [SetEnabled True, MouseDown a, MouseMove b, SetEnabled False]
        (new_SelectBoxBehavior v0)) = None \<and>
   selecting
     (run gsb [SetEnabled True, MouseDown a, MouseMove b, SetEnabled False]
        (new_SelectBoxBehavior v0)) = True \<and>
   selectionBox_rendered
     (run gsb [SetEnabled True, MouseDown a, MouseMove b, SetEnabled False, MouseMove c]
        (new_SelectBoxBehavior v0)) = Some (gsb a c) \<and>
   selectionBox_rendered
     (run gsb [SetEnabled True, MouseDown a, MouseMove b, SetEnabled False, MouseMove c, MouseUp d]
        (new_SelectBoxBehavior v0)) = Some (gsb a c) \<and>
   onSelectRect_calls
     (run gsb [SetEnabled True, MouseDown a, MouseMove b, SetEnabled False, MouseMove c, MouseUp d]
        (new_SelectBoxBehavior v0)) = []"
  by (simp add: run_Cons run_Nil handler_defs)

end
